theory Spec2Isabelle
  imports Main
begin

section \<open>The seller profile page (app/seller/view-profile/page.tsx)\<close>

text \<open>
  The page is a React component with three pieces of state (\<open>profile\<close>, \<open>loading\<close>,
  \<open>error\<close>), one effect that runs \<open>fetchProfile\<close> on mount, a logout handler and a
  render function. The collaborators it calls (console, router, toast, the profile
  service, the authentication context) are not part of the page: each call is recorded
  as an event, in program order, and what the service answers is an input of the run.
  A console call is recorded with its first argument, the fixed label.
\<close>

subsection \<open>Data model\<close>

text \<open>The interface \<open>SellerProfile\<close>; a field marked \<open>?\<close> may be absent.\<close>

record SellerProfile =
  profile_id :: string
  fullName :: string
  email :: string
  phone :: "string option"
  title :: "string option"
  companyName :: "string option"
  website :: "string option"
  location :: "string option"

text \<open>The three \<open>useState\<close> cells of the component.\<close>

record page_state =
  profile :: "SellerProfile option"
  loading :: bool
  error :: "string option"

definition initial_state :: page_state where
  "initial_state = \<lparr>profile = None, loading = True, error = None\<rparr>"

text \<open>
  An error value that \<open>getSellerProfile\<close> can throw: the handler reads only its
  \<open>message\<close> property, which is a string (possibly empty) or absent.
\<close>

datatype thrown = Thrown (message: "string option")

text \<open>
  What \<open>await getSellerProfile()\<close> yields: a profile, a rejection with an error value,
  or a rejection with \<open>null\<close> or \<open>undefined\<close> (the handler's parameter is typed \<open>any\<close>,
  so nothing excludes it).
\<close>

datatype fetch_result = Resolved SellerProfile | Rejected thrown | Rejected_nullish

datatype variant = Default_variant | Destructive

datatype event =
    Console_error string
  | Console_log string
  | Router_push string
  | Toast (toast_title: string) (toast_description: string) (toast_variant: variant)
  | Call_getSellerProfile
  | Auth_logout

text \<open>
  Everything a run can read or change: the component state, the browser's local
  storage, the session held by the authentication context, and the calls made so far.
\<close>

record world =
  ui :: page_state
  localStorage :: "string \<rightharpoonup> string"
  session :: "string option"
  trace :: "event list"

text \<open>
  How a block ends: normally, or by throwing. The \<open>try\<close> block throws what the service
  rejected with (\<open>None\<close> for \<open>null\<close> or \<open>undefined\<close>); the handler can only throw the
  \<open>TypeError\<close> of reading a property of \<open>null\<close> or \<open>undefined\<close>.
\<close>

datatype 'e completion = Returned | Threw 'e

datatype js_exception = TypeError

text \<open>A freshly mounted page: the initial component state and no call made yet.\<close>

definition mounted :: "(string \<rightharpoonup> string) \<Rightarrow> string option \<Rightarrow> world" where
  "mounted ls se = \<lparr>ui = initial_state, localStorage = ls, session = se, trace = []\<rparr>"

subsection \<open>JavaScript truthiness of optional strings\<close>

text \<open>\<open>null\<close>, \<open>undefined\<close> and the empty string are falsy; every other string is truthy.\<close>

definition truthy :: "string option \<Rightarrow> bool" where
  "truthy v = (case v of None \<Rightarrow> False | Some s \<Rightarrow> s \<noteq> [])"

text \<open>\<open>v || d\<close> for an optional string \<open>v\<close> and a string \<open>d\<close>.\<close>

definition or_else :: "string option \<Rightarrow> string \<Rightarrow> string" where
  "or_else v d = (case v of None \<Rightarrow> d | Some s \<Rightarrow> if s = [] then d else s)"

subsection \<open>State setters and collaborator calls\<close>

definition setProfile :: "SellerProfile option \<Rightarrow> world \<Rightarrow> world" where
  "setProfile p w = w\<lparr>ui := (ui w)\<lparr>profile := p\<rparr>\<rparr>"

definition setLoading :: "bool \<Rightarrow> world \<Rightarrow> world" where
  "setLoading b w = w\<lparr>ui := (ui w)\<lparr>loading := b\<rparr>\<rparr>"

definition setError :: "string option \<Rightarrow> world \<Rightarrow> world" where
  "setError e w = w\<lparr>ui := (ui w)\<lparr>error := e\<rparr>\<rparr>"

definition emit :: "event \<Rightarrow> world \<Rightarrow> world" where
  "emit ev w = w\<lparr>trace := trace w @ [ev]\<rparr>"

definition router_push :: "string \<Rightarrow> world \<Rightarrow> world" where
  "router_push path w = emit (Router_push path) w"

definition toast :: "string \<Rightarrow> string \<Rightarrow> variant \<Rightarrow> world \<Rightarrow> world" where
  "toast t d v w = emit (Toast t d v) w"

definition console_error :: "string \<Rightarrow> world \<Rightarrow> world" where
  "console_error s w = emit (Console_error s) w"

definition console_log :: "string \<Rightarrow> world \<Rightarrow> world" where
  "console_log s w = emit (Console_log s) w"

text \<open>
  Modelled from the spec: \<open>logout\<close> of the authentication context
  (contexts/auth-context is not among the sources). The spec says it "exposes a logout
  operation that clears session state"; the call itself is recorded as well.
\<close>

definition logout :: "world \<Rightarrow> world" where
  "logout w = emit Auth_logout (w\<lparr>session := None\<rparr>)"

subsection \<open>The fetch effect\<close>

text \<open>The \<open>try\<close> block of \<open>fetchProfile\<close>; \<open>svc\<close> is what \<open>await getSellerProfile()\<close> yields.\<close>

definition fetch_try :: "fetch_result \<Rightarrow> world \<Rightarrow> thrown option completion \<times> world" where
  "fetch_try svc w0 =
    (let w1 = setLoading True w0;
         token = localStorage w1 ''token''
     in if \<not> truthy token then
          (Returned,
           router_push ''/seller/login?error=no_token''
             (console_error ''View Profile - No authentication token found, redirecting to login'' w1))
        else
          let w2 = console_log ''View Profile - Attempting to fetch profile'' w1;
              w3 = emit Call_getSellerProfile w2
          in case svc of
               Rejected err \<Rightarrow> (Threw (Some err), w3)
             | Rejected_nullish \<Rightarrow> (Threw None, w3)
             | Resolved data \<Rightarrow>
                 (Returned, setError None (setProfile (Some data) (console_log ''Profile data:'' w3))))"

text \<open>The three-way comparison that decides the redirect in the \<open>catch\<close> block.\<close>

definition is_auth_error :: "thrown \<Rightarrow> bool" where
  "is_auth_error err =
    (message err = Some ''Authentication expired'' \<or>
     message err = Some ''No authentication token found'' \<or>
     message err = Some ''Failed to fetch profile: 403'')"

text \<open>
  The \<open>catch\<close> block. After the console call, \<open>err.message\<close> is read with no guard:
  when the caught value is \<open>null\<close> or \<open>undefined\<close> this read throws a \<open>TypeError\<close>, before
  \<open>setError\<close> and \<open>toast\<close>.
\<close>

definition fetch_catch :: "thrown option \<Rightarrow> world \<Rightarrow> js_exception completion \<times> world" where
  "fetch_catch caught w0 =
    (let w1 = console_error ''Error fetching profile:'' w0
     in case caught of
          None \<Rightarrow> (Threw TypeError, w1)
        | Some err \<Rightarrow>
            let w2 = setError (Some (or_else (message err) ''Failed to load profile'')) w1;
                w3 = toast ''Error'' (or_else (message err) ''Failed to load profile'')
                       Destructive w2
            in if is_auth_error err then
                 (Returned,
                  router_push ''/seller/login?error=auth_failed''
                    (console_log ''View Profile - Authentication error, redirecting to login''
                       w3))
               else (Returned, w3))"

definition fetch_finally :: "world \<Rightarrow> world" where
  "fetch_finally w = setLoading False w"

text \<open>
  \<open>try { body } catch (err) { handler } finally { fin }\<close>: the handler runs on what the
  body throws, \<open>fin\<close> runs on every path (also after a \<open>return\<close> in the body), and what
  the handler throws leaves the statement.
\<close>

definition try_catch_finally ::
  "(world \<Rightarrow> 'a completion \<times> world) \<Rightarrow> ('a \<Rightarrow> world \<Rightarrow> 'b completion \<times> world) \<Rightarrow>
   (world \<Rightarrow> world) \<Rightarrow> world \<Rightarrow> 'b completion \<times> world" where
  "try_catch_finally body handler fin w =
    (case body w of
       (Returned, w1) \<Rightarrow> (Returned, fin w1)
     | (Threw err, w1) \<Rightarrow> (case handler err w1 of (c, w2) \<Rightarrow> (c, fin w2)))"

definition fetchProfile :: "fetch_result \<Rightarrow> world \<Rightarrow> js_exception completion \<times> world" where
  "fetchProfile svc w = try_catch_finally (fetch_try svc) fetch_catch fetch_finally w"

text \<open>
  The body of \<open>useEffect\<close>: nothing happens where \<open>window\<close> is undefined. The promise of
  \<open>fetchProfile()\<close> is not awaited and has no \<open>.catch\<close>, so the completion given here is
  what leaves the effect.
\<close>

definition mount_effect ::
  "bool \<Rightarrow> fetch_result \<Rightarrow> world \<Rightarrow> js_exception completion \<times> world" where
  "mount_effect window_defined svc w =
    (if \<not> window_defined then (Returned, w) else fetchProfile svc w)"

text \<open>
  The world in which the page is rendered while \<open>await getSellerProfile()\<close> is pending:
  the \<open>try\<close> block has run up to the call.
\<close>

definition awaiting :: "world \<Rightarrow> world" where
  "awaiting w0 =
    emit Call_getSellerProfile
      (console_log ''View Profile - Attempting to fetch profile'' (setLoading True w0))"

subsection \<open>The logout handler\<close>

definition handleLogout :: "world \<Rightarrow> world" where
  "handleLogout w = router_push ''/seller/login'' (logout w)"

subsection \<open>The states the page can be in\<close>

text \<open>
  The component state is written only by the effect, so the states of the page are those
  of a fresh mount followed by any sequence of: a complete run of the effect, the pause
  of a run at the \<open>await\<close> (there is none when no token is stored), a click on the
  logout control, and a change of local storage by the rest of the application.
\<close>

datatype step =
    Run_effect bool fetch_result
  | Await_service
  | Click_logout
  | Storage_change "string \<rightharpoonup> string"

fun after_step :: "world \<Rightarrow> step \<Rightarrow> world" where
  "after_step w (Run_effect window_defined svc) = snd (mount_effect window_defined svc w)"
| "after_step w Await_service = (if truthy (localStorage w ''token'') then awaiting w else w)"
| "after_step w Click_logout = handleLogout w"
| "after_step w (Storage_change ls) = w\<lparr>localStorage := ls\<rparr>"

definition run_steps :: "step list \<Rightarrow> world \<Rightarrow> world" where
  "run_steps steps w = foldl after_step w steps"

subsection \<open>Rendering\<close>

text \<open>
  What the component puts on the page, as far as it depends on the state: the user
  block of the header and the content block below it. Static markup (sidebar, labels)
  is left out; the fixed heading of the error panel is part of \<open>Error_panel\<close>.
\<close>

datatype header_view =
    Header_skeleton
  | Header_user (header_name: string) (header_initial: string)

record profile_panel =
  avatar_alt :: string
  name_text :: string
  title_text :: string
  email_text :: string
  company_text :: string

datatype body_view =
    Body_skeleton
  | Error_panel (panel_message: string)
  | Profile_panel (panel: profile_panel)

record page_view =
  header :: header_view
  body :: body_view

text \<open>\<open>profile?.f\<close> for a required and for an optional field \<open>f\<close>.\<close>

definition opt_field :: "SellerProfile option \<Rightarrow> (SellerProfile \<Rightarrow> string) \<Rightarrow> string option" where
  "opt_field p f = map_option f p"

definition opt_field' ::
  "SellerProfile option \<Rightarrow> (SellerProfile \<Rightarrow> string option) \<Rightarrow> string option" where
  "opt_field' p f = Option.bind p f"

definition render_header :: "page_state \<Rightarrow> header_view" where
  "render_header s =
    (if loading s then Header_skeleton
     else Header_user
            (or_else (opt_field (profile s) fullName) ''User'')
            (if truthy (opt_field (profile s) fullName)
             then take 1 (fullName (the (profile s))) else ''U''))"

definition render_body :: "page_state \<Rightarrow> body_view" where
  "render_body s =
    (if loading s then Body_skeleton
     else if truthy (error s) then Error_panel (the (error s))
     else Profile_panel
            \<lparr>avatar_alt = or_else (opt_field (profile s) fullName) ''Profile'',
             name_text = or_else (opt_field (profile s) fullName) ''User'',
             title_text = or_else (opt_field' (profile s) title) ''CEO'',
             email_text = or_else (opt_field (profile s) email) ''Email not provided'',
             company_text = or_else (opt_field' (profile s) companyName) ''Not provided''\<rparr>)"

definition render :: "page_state \<Rightarrow> page_view" where
  "render s = \<lparr>header = render_header s, body = render_body s\<rparr>"

text \<open>The texts taken from the state that a view shows, header first.\<close>

definition header_texts :: "header_view \<Rightarrow> string list" where
  "header_texts h = (case h of Header_skeleton \<Rightarrow> [] | Header_user n i \<Rightarrow> [n, i])"

definition body_texts :: "body_view \<Rightarrow> string list" where
  "body_texts b =
    (case b of
       Body_skeleton \<Rightarrow> []
     | Error_panel msg \<Rightarrow> [msg]
     | Profile_panel p \<Rightarrow> [name_text p, title_text p, email_text p, company_text p])"

definition shown_texts :: "page_view \<Rightarrow> string list" where
  "shown_texts v = header_texts (header v) @ body_texts (body v)"

definition is_skeleton :: "body_view \<Rightarrow> bool" where
  "is_skeleton b = (case b of Body_skeleton \<Rightarrow> True | _ \<Rightarrow> False)"

definition is_error_panel :: "body_view \<Rightarrow> bool" where
  "is_error_panel b = (case b of Error_panel _ \<Rightarrow> True | _ \<Rightarrow> False)"

definition is_profile_panel :: "body_view \<Rightarrow> bool" where
  "is_profile_panel b = (case b of Profile_panel _ \<Rightarrow> True | _ \<Rightarrow> False)"

subsection \<open>Observations on the trace\<close>

definition pushes :: "event list \<Rightarrow> string list" where
  "pushes evs = concat (map (\<lambda>ev. case ev of Router_push p \<Rightarrow> [p] | _ \<Rightarrow> []) evs)"

definition toasts :: "event list \<Rightarrow> event list" where
  "toasts evs = filter (\<lambda>ev. case ev of Toast _ _ _ \<Rightarrow> True | _ \<Rightarrow> False) evs"

definition service_calls :: "event list \<Rightarrow> nat" where
  "service_calls evs = length (filter (\<lambda>ev. ev = Call_getSellerProfile) evs)"

subsection \<open>Sample data\<close>

text \<open>A response with the name and address of the spec's example, and one with no name.\<close>

definition jane :: SellerProfile where
  "jane = \<lparr>profile_id = ''1'', fullName = ''Jane Doe'', email = ''jane@x.com'', phone = None,
            title = None, companyName = None, website = None, location = None\<rparr>"

definition nameless :: SellerProfile where
  "nameless = \<lparr>profile_id = ''2'', fullName = '''', email = ''anon@x.com'', phone = None,
            title = Some '''', companyName = Some ''Acme'', website = Some ''acme.example'',
            location = None\<rparr>"

section \<open>Properties\<close>

subsection \<open>Observations on an extended trace\<close>

lemma pushes_simps:
  "pushes [] = []"
  "pushes (xs @ ys) = pushes xs @ pushes ys"
  "pushes (Router_push p # xs) = p # pushes xs"
  "pushes (Console_error s # xs) = pushes xs"
  "pushes (Console_log s # xs) = pushes xs"
  "pushes (Toast t d v # xs) = pushes xs"
  "pushes (Call_getSellerProfile # xs) = pushes xs"
  "pushes (Auth_logout # xs) = pushes xs"
  by (simp_all add: pushes_def)

lemma toasts_simps:
  "toasts [] = []"
  "toasts (xs @ ys) = toasts xs @ toasts ys"
  "toasts (Router_push p # xs) = toasts xs"
  "toasts (Console_error s # xs) = toasts xs"
  "toasts (Console_log s # xs) = toasts xs"
  "toasts (Toast t d v # xs) = Toast t d v # toasts xs"
  "toasts (Call_getSellerProfile # xs) = toasts xs"
  "toasts (Auth_logout # xs) = toasts xs"
  by (simp_all add: toasts_def)

lemma service_calls_simps:
  "service_calls [] = 0"
  "service_calls (xs @ ys) = service_calls xs + service_calls ys"
  "service_calls (Router_push p # xs) = service_calls xs"
  "service_calls (Console_error s # xs) = service_calls xs"
  "service_calls (Console_log s # xs) = service_calls xs"
  "service_calls (Toast t d v # xs) = service_calls xs"
  "service_calls (Call_getSellerProfile # xs) = Suc (service_calls xs)"
  "service_calls (Auth_logout # xs) = service_calls xs"
  by (simp_all add: service_calls_def)

lemmas trace_simps = pushes_simps toasts_simps service_calls_simps

subsection \<open>The three paths of a run\<close>

lemmas step_defs = fetchProfile_def try_catch_finally_def fetch_try_def fetch_catch_def
  fetch_finally_def setLoading_def setError_def setProfile_def emit_def
  router_push_def toast_def console_error_def console_log_def Let_def

lemmas render_defs = render_def render_header_def render_body_def opt_field_def opt_field'_def

lemma or_else_Some: "m \<noteq> [] \<Longrightarrow> or_else (Some m) d = m"
  by (simp add: or_else_def)

lemma or_else_truthy: "d \<noteq> [] \<Longrightarrow> truthy (Some (or_else v d))"
  by (simp add: or_else_def truthy_def split: option.splits)

lemma fetchProfile_returns: "svc \<noteq> Rejected_nullish \<Longrightarrow> fst (fetchProfile svc w) = Returned"
  by (simp add: step_defs split: fetch_result.splits)

lemma missing_token_returns:
  "\<not> truthy (localStorage w ''token'') \<Longrightarrow> fst (fetchProfile svc w) = Returned"
  by (simp add: step_defs)

text \<open>
  A rejection with \<open>null\<close> or \<open>undefined\<close>: the handler throws after its console call,
  \<open>finally\<close> still runs, and the \<open>TypeError\<close> leaves \<open>fetchProfile\<close>; the error state is
  not written and no toast is shown.
\<close>

lemma nullish_rejection:
  "truthy (localStorage w ''token'') \<Longrightarrow>
   fetchProfile Rejected_nullish w =
     (Threw TypeError,
      w\<lparr>ui := (ui w)\<lparr>loading := False\<rparr>,
        trace := trace w @
          [Console_log ''View Profile - Attempting to fetch profile'', Call_getSellerProfile,
           Console_error ''Error fetching profile:'']\<rparr>)"
  by (simp add: step_defs)

lemma fetch_try_awaiting:
  "truthy (localStorage w ''token'') \<Longrightarrow>
   fetch_try svc w =
     (case svc of
        Rejected err \<Rightarrow> (Threw (Some err), awaiting w)
      | Rejected_nullish \<Rightarrow> (Threw None, awaiting w)
      | Resolved data \<Rightarrow>
          (Returned,
           setError None (setProfile (Some data) (console_log ''Profile data:'' (awaiting w)))))"
  by (simp add: fetch_try_def awaiting_def setLoading_def emit_def console_log_def Let_def
      split: fetch_result.splits)

lemma ui_missing_token:
  "\<not> truthy (localStorage w ''token'') \<Longrightarrow>
   ui (snd (fetchProfile svc w)) = (ui w)\<lparr>loading := False\<rparr>"
  by (simp add: step_defs)

lemma trace_missing_token:
  "\<not> truthy (localStorage w ''token'') \<Longrightarrow>
   trace (snd (fetchProfile svc w)) = trace w @
     [Console_error ''View Profile - No authentication token found, redirecting to login'',
      Router_push ''/seller/login?error=no_token'']"
  by (simp add: step_defs)

lemma ui_resolved:
  "truthy (localStorage w ''token'') \<Longrightarrow>
   ui (snd (fetchProfile (Resolved p) w)) =
     (ui w)\<lparr>profile := Some p, loading := False, error := None\<rparr>"
  by (simp add: step_defs)

lemma trace_resolved:
  "truthy (localStorage w ''token'') \<Longrightarrow>
   trace (snd (fetchProfile (Resolved p) w)) = trace w @
     [Console_log ''View Profile - Attempting to fetch profile'', Call_getSellerProfile,
      Console_log ''Profile data:'']"
  by (simp add: step_defs)

lemma ui_rejected:
  "truthy (localStorage w ''token'') \<Longrightarrow>
   ui (snd (fetchProfile (Rejected err) w)) =
     (ui w)\<lparr>loading := False,
            error := Some (or_else (message err) ''Failed to load profile'')\<rparr>"
  by (simp add: step_defs)

lemma trace_rejected:
  "truthy (localStorage w ''token'') \<Longrightarrow>
   trace (snd (fetchProfile (Rejected err) w)) = trace w @
     [Console_log ''View Profile - Attempting to fetch profile'', Call_getSellerProfile,
      Console_error ''Error fetching profile:'',
      Toast ''Error'' (or_else (message err) ''Failed to load profile'') Destructive] @
     (if is_auth_error err
      then [Console_log ''View Profile - Authentication error, redirecting to login'',
            Router_push ''/seller/login?error=auth_failed'']
      else [])"
  by (simp add: step_defs)

lemma body_of_error:
  "\<not> loading s \<Longrightarrow> error s = Some (or_else v ''Failed to load profile'') \<Longrightarrow>
   body (render s) = Error_panel (or_else v ''Failed to load profile'')"
  using or_else_truthy [of "''Failed to load profile''" v]
  by (simp add: render_def render_body_def)

subsection \<open>Authentication failures\<close>

text \<open>
  C1. When the service is called (a truthy token is stored) and fails with a message
  that is exactly "Authentication expired", "No authentication token found" or
  "Failed to fetch profile: 403", the run adds one destructive toast titled "Error"
  whose description is that message, sets the error state to that message, and adds one
  navigation request, to "/seller/login?error=auth_failed".
\<close>

theorem auth_failure_redirects:
  assumes tok: "truthy (localStorage w ''token'')"
    and msg: "m = ''Authentication expired'' \<or> m = ''No authentication token found'' \<or>
              m = ''Failed to fetch profile: 403''"
  shows "toasts (trace (snd (fetchProfile (Rejected (Thrown (Some m))) w))) =
           toasts (trace w) @ [Toast ''Error'' m Destructive] \<and>
         error (ui (snd (fetchProfile (Rejected (Thrown (Some m))) w))) = Some m \<and>
         pushes (trace (snd (fetchProfile (Rejected (Thrown (Some m))) w))) =
           pushes (trace w) @ [''/seller/login?error=auth_failed'']"
proof -
  from msg have "m \<noteq> []" by auto
  then have shown: "or_else (Some m) ''Failed to load profile'' = m"
    by (rule or_else_Some)
  from msg have auth: "is_auth_error (Thrown (Some m))"
    by (simp add: is_auth_error_def)
  show ?thesis
    by (simp add: ui_rejected [OF tok] trace_rejected [OF tok] shown auth trace_simps)
qed

theorem auth_failure_redirects_witness:
  "truthy (localStorage (mounted [''token'' \<mapsto> ''abc''] (Some ''abc'')) ''token'') \<and>
   toasts (trace (snd (fetchProfile (Rejected (Thrown (Some ''Failed to fetch profile: 403'')))
      (mounted [''token'' \<mapsto> ''abc''] (Some ''abc''))))) =
     [Toast ''Error'' ''Failed to fetch profile: 403'' Destructive] \<and>
   error (ui (snd (fetchProfile (Rejected (Thrown (Some ''Failed to fetch profile: 403'')))
      (mounted [''token'' \<mapsto> ''abc''] (Some ''abc''))))) =
     Some ''Failed to fetch profile: 403'' \<and>
   pushes (trace (snd (fetchProfile (Rejected (Thrown (Some ''Failed to fetch profile: 403'')))
      (mounted [''token'' \<mapsto> ''abc''] (Some ''abc''))))) =
     [''/seller/login?error=auth_failed'']"
  using auth_failure_redirects [of "mounted [''token'' \<mapsto> ''abc''] (Some ''abc'')"
      "''Failed to fetch profile: 403''"]
  by (simp add: mounted_def truthy_def trace_simps)

subsection \<open>Missing credential\<close>

text \<open>
  C2. When local storage holds no token at mount (or an empty one, which the test
  \<open>!token\<close> treats alike), the run of the effect adds exactly one navigation request,
  to "/seller/login?error=no_token", and does not call \<open>getSellerProfile\<close>, whatever the
  service would have answered.
\<close>

theorem missing_token_redirects:
  assumes "\<not> truthy (localStorage w ''token'')"
  shows "pushes (trace (snd (mount_effect True svc w))) =
           pushes (trace w) @ [''/seller/login?error=no_token''] \<and>
         service_calls (trace (snd (mount_effect True svc w))) = service_calls (trace w)"
  by (simp add: mount_effect_def trace_missing_token [OF assms] trace_simps)

theorem missing_token_redirects_witness:
  "\<not> truthy (localStorage (mounted Map.empty None) ''token'') \<and>
   pushes (trace (snd (mount_effect True (Rejected (Thrown None)) (mounted Map.empty None)))) =
     [''/seller/login?error=no_token''] \<and>
   service_calls
     (trace (snd (mount_effect True (Rejected (Thrown None)) (mounted Map.empty None)))) = 0"
  using missing_token_redirects [of "mounted Map.empty None" "Rejected (Thrown None)"]
  by (simp add: mounted_def truthy_def trace_simps)

text \<open>
  C9. With no token stored, the \<open>return\<close> in the \<open>try\<close> block still passes through
  \<open>finally\<close>: a freshly mounted page ends the run with \<open>loading\<close> false and \<open>error\<close> and
  \<open>profile\<close> still null, and what it renders is the profile panel filled with the
  fallback texts, neither the skeleton nor the error panel.
\<close>

theorem missing_token_shows_fallback_panel:
  assumes tok: "\<not> truthy (localStorage w ''token'')"
    and fresh: "ui w = initial_state"
  shows "ui (snd (mount_effect True svc w)) =
           \<lparr>profile = None, loading = False, error = None\<rparr> \<and>
         body (render (ui (snd (mount_effect True svc w)))) =
           Profile_panel \<lparr>avatar_alt = ''Profile'', name_text = ''User'', title_text = ''CEO'',
             email_text = ''Email not provided'', company_text = ''Not provided''\<rparr>"
  by (simp add: mount_effect_def ui_missing_token [OF tok] fresh initial_state_def
      render_defs truthy_def or_else_def)

theorem missing_token_shows_fallback_panel_witness:
  "\<not> truthy (localStorage (mounted Map.empty None) ''token'') \<and>
   ui (mounted Map.empty None) = initial_state \<and>
   ui (snd (mount_effect True (Rejected (Thrown None)) (mounted Map.empty None))) =
     \<lparr>profile = None, loading = False, error = None\<rparr> \<and>
   is_profile_panel
     (body (render (ui (snd (mount_effect True (Rejected (Thrown None))
        (mounted Map.empty None))))))"
  using missing_token_shows_fallback_panel [of "mounted Map.empty None" "Rejected (Thrown None)"]
  by (simp add: mounted_def truthy_def is_profile_panel_def render_defs)

subsection \<open>Failures outside the recognised set\<close>

text \<open>
  C3, as the code has it. When the service is called and fails with a message that is
  none of the three recognised ones, no navigation is requested. If the message is a
  non-empty string, the error state is that message and the error panel shows it. If
  the message is empty or absent, \<open>err.message || "Failed to load profile"\<close> puts the
  fixed text "Failed to load profile" in its place, in the state and in the panel.
\<close>

theorem unrecognised_failure_shows_panel:
  assumes tok: "truthy (localStorage w ''token'')"
    and unrec: "message err \<noteq> Some ''Authentication expired''"
      "message err \<noteq> Some ''No authentication token found''"
      "message err \<noteq> Some ''Failed to fetch profile: 403''"
    and run: "w' = snd (fetchProfile (Rejected err) w)"
  shows "pushes (trace w') = pushes (trace w) \<and>
         (\<forall>m. message err = Some m \<and> m \<noteq> [] \<longrightarrow>
            error (ui w') = Some m \<and> body (render (ui w')) = Error_panel m) \<and>
         (message err = None \<or> message err = Some [] \<longrightarrow>
            error (ui w') = Some ''Failed to load profile'' \<and>
            body (render (ui w')) = Error_panel ''Failed to load profile'')"
proof -
  let ?shown = "or_else (message err) ''Failed to load profile''"
  from unrec have "\<not> is_auth_error err"
    by (simp add: is_auth_error_def)
  then have nav: "pushes (trace w') = pushes (trace w)"
    by (simp add: run trace_rejected [OF tok] trace_simps)
  have st: "error (ui w') = Some ?shown" "\<not> loading (ui w')"
    by (simp_all add: run ui_rejected [OF tok])
  then have panel: "body (render (ui w')) = Error_panel ?shown"
    by (simp add: body_of_error)
  have some: "\<And>m. message err = Some m \<Longrightarrow> m \<noteq> [] \<Longrightarrow> ?shown = m"
    by (simp add: or_else_def)
  have none: "message err = None \<or> message err = Some [] \<Longrightarrow> ?shown = ''Failed to load profile''"
    by (auto simp add: or_else_def)
  show ?thesis
    using nav st(1) panel some none by auto
qed

theorem unrecognised_failure_shows_panel_witness:
  "truthy (localStorage (mounted [''token'' \<mapsto> ''abc''] None) ''token'') \<and>
   pushes (trace (snd (fetchProfile (Rejected (Thrown (Some ''Network timeout'')))
     (mounted [''token'' \<mapsto> ''abc''] None)))) = [] \<and>
   error (ui (snd (fetchProfile (Rejected (Thrown (Some ''Network timeout'')))
     (mounted [''token'' \<mapsto> ''abc''] None)))) = Some ''Network timeout'' \<and>
   body (render (ui (snd (fetchProfile (Rejected (Thrown (Some ''Network timeout'')))
     (mounted [''token'' \<mapsto> ''abc''] None))))) = Error_panel ''Network timeout'' \<and>
   pushes (trace (snd (fetchProfile (Rejected (Thrown None))
     (mounted [''token'' \<mapsto> ''abc''] None)))) = [] \<and>
   body (render (ui (snd (fetchProfile (Rejected (Thrown None))
     (mounted [''token'' \<mapsto> ''abc''] None))))) = Error_panel ''Failed to load profile''"
  using unrecognised_failure_shows_panel [of "mounted [''token'' \<mapsto> ''abc''] None"
      "Thrown (Some ''Network timeout'')"
      "snd (fetchProfile (Rejected (Thrown (Some ''Network timeout'')))
         (mounted [''token'' \<mapsto> ''abc''] None))"]
    unrecognised_failure_shows_panel [of "mounted [''token'' \<mapsto> ''abc''] None"
      "Thrown None"
      "snd (fetchProfile (Rejected (Thrown None)) (mounted [''token'' \<mapsto> ''abc''] None))"]
  by (simp add: mounted_def truthy_def trace_simps)

text \<open>
  The claim as written fails for the empty message, which is not in the recognised set:
  the error state and the panel then hold "Failed to load profile", not the message.
\<close>

theorem empty_message_counterexample:
  "truthy (localStorage (mounted [''token'' \<mapsto> ''abc''] None) ''token'') \<and>
   \<not> is_auth_error (Thrown (Some '''')) \<and>
   error (ui (snd (fetchProfile (Rejected (Thrown (Some '''')))
     (mounted [''token'' \<mapsto> ''abc''] None)))) = Some ''Failed to load profile'' \<and>
   error (ui (snd (fetchProfile (Rejected (Thrown (Some '''')))
     (mounted [''token'' \<mapsto> ''abc''] None)))) \<noteq> Some '''' \<and>
   body (render (ui (snd (fetchProfile (Rejected (Thrown (Some '''')))
     (mounted [''token'' \<mapsto> ''abc''] None))))) \<noteq> Error_panel ''''"
  by (simp add: step_defs is_auth_error_def or_else_def render_defs truthy_def mounted_def
      initial_state_def)

subsection \<open>The profile state on failure\<close>

text \<open>
  C10. A failed fetch leaves the profile state as it was (only the success path writes
  it), so it is still null when it was null before, and the content block is the error
  panel, whose only text is the error message.
\<close>

theorem failure_keeps_profile:
  assumes tok: "truthy (localStorage w ''token'')"
    and run: "w' = snd (fetchProfile (Rejected err) w)"
  shows "profile (ui w') = profile (ui w) \<and>
         (profile (ui w) = None \<longrightarrow> profile (ui w') = None) \<and>
         is_error_panel (body (render (ui w'))) \<and>
         body_texts (body (render (ui w'))) = [or_else (message err) ''Failed to load profile'']"
proof -
  have keep: "profile (ui w') = profile (ui w)"
    by (simp add: run ui_rejected [OF tok])
  have "error (ui w') = Some (or_else (message err) ''Failed to load profile'')"
    and "\<not> loading (ui w')"
    by (simp_all add: run ui_rejected [OF tok])
  then have "body (render (ui w')) = Error_panel (or_else (message err) ''Failed to load profile'')"
    by (simp add: body_of_error)
  with keep show ?thesis
    by (simp add: is_error_panel_def body_texts_def)
qed

theorem failure_keeps_profile_witness:
  "truthy (localStorage (mounted [''token'' \<mapsto> ''abc''] None) ''token'') \<and>
   profile (ui (snd (fetchProfile (Rejected (Thrown (Some ''Network timeout'')))
     (mounted [''token'' \<mapsto> ''abc''] None)))) = None \<and>
   body_texts (body (render (ui (snd (fetchProfile (Rejected (Thrown (Some ''Network timeout'')))
     (mounted [''token'' \<mapsto> ''abc''] None)))))) = [''Network timeout'']"
  using failure_keeps_profile [of "mounted [''token'' \<mapsto> ''abc''] None"
      "snd (fetchProfile (Rejected (Thrown (Some ''Network timeout'')))
         (mounted [''token'' \<mapsto> ''abc''] None))"
      "Thrown (Some ''Network timeout'')"]
  by (simp add: mounted_def truthy_def initial_state_def or_else_def)

subsection \<open>The success path\<close>

text \<open>
  C5, as the code has it. When the service is called and answers with a profile, the
  run stores that profile, sets \<open>error\<close> to null and \<open>loading\<close> to false, and the content
  block is the profile panel, not the error panel. The panel shows the response's
  \<open>fullName\<close> and \<open>email\<close> when they are non-empty; an empty \<open>fullName\<close> is shown as
  "User" and an empty \<open>email\<close> as "Email not provided".
\<close>

theorem success_stores_profile:
  assumes tok: "truthy (localStorage w ''token'')"
    and run: "w' = snd (fetchProfile (Resolved p) w)"
  shows "profile (ui w') = Some p \<and> error (ui w') = None \<and> \<not> loading (ui w') \<and>
         is_profile_panel (body (render (ui w'))) \<and>
         \<not> is_error_panel (body (render (ui w'))) \<and>
         name_text (panel (body (render (ui w')))) =
           (if fullName p = [] then ''User'' else fullName p) \<and>
         email_text (panel (body (render (ui w')))) =
           (if email p = [] then ''Email not provided'' else email p)"
  by (simp add: run ui_resolved [OF tok] render_defs truthy_def or_else_def
      is_profile_panel_def is_error_panel_def)

theorem success_stores_profile_witness:
  "truthy (localStorage (mounted [''token'' \<mapsto> ''abc''] None) ''token'') \<and>
   profile (ui (snd (fetchProfile (Resolved jane) (mounted [''token'' \<mapsto> ''abc''] None)))) =
     Some jane \<and>
   name_text (panel (body (render (ui (snd (fetchProfile (Resolved jane)
     (mounted [''token'' \<mapsto> ''abc''] None))))))) = ''Jane Doe'' \<and>
   email_text (panel (body (render (ui (snd (fetchProfile (Resolved jane)
     (mounted [''token'' \<mapsto> ''abc''] None))))))) = ''jane@x.com''"
  using success_stores_profile [of "mounted [''token'' \<mapsto> ''abc''] None"
      "snd (fetchProfile (Resolved jane) (mounted [''token'' \<mapsto> ''abc''] None))" jane]
  by (simp add: mounted_def truthy_def jane_def)

text \<open>
  The claim as written fails for a response whose \<open>fullName\<close> is empty: the panel shows
  "User", which is not the response's \<open>fullName\<close>.
\<close>

theorem empty_name_counterexample:
  "truthy (localStorage (mounted [''token'' \<mapsto> ''abc''] None) ''token'') \<and>
   profile (ui (snd (fetchProfile (Resolved nameless) (mounted [''token'' \<mapsto> ''abc''] None)))) =
     Some nameless \<and>
   name_text (panel (body (render (ui (snd (fetchProfile (Resolved nameless)
     (mounted [''token'' \<mapsto> ''abc''] None))))))) = ''User'' \<and>
   name_text (panel (body (render (ui (snd (fetchProfile (Resolved nameless)
     (mounted [''token'' \<mapsto> ''abc''] None))))))) \<noteq> fullName nameless"
  by (simp add: step_defs render_defs truthy_def or_else_def mounted_def initial_state_def
      nameless_def)

subsection \<open>The three views\<close>

text \<open>No step of the page makes \<open>error\<close> the empty string.\<close>

lemma effect_keeps_error:
  assumes old: "error (ui w) \<noteq> Some []"
  shows "error (ui (snd (mount_effect wd svc w))) \<noteq> Some []"
proof (cases "truthy (localStorage w ''token'')")
  case False
  with old show ?thesis
    by (simp add: mount_effect_def ui_missing_token)
next
  case True
  show ?thesis
  proof (cases svc)
    case (Resolved p)
    with True old show ?thesis
      by (simp add: mount_effect_def ui_resolved)
  next
    case (Rejected err)
    have "or_else (message err) ''Failed to load profile'' \<noteq> []"
      using or_else_truthy [of "''Failed to load profile''" "message err"]
      by (simp add: truthy_def)
    with True old Rejected show ?thesis
      by (simp add: mount_effect_def ui_rejected)
  next
    case Rejected_nullish
    with True old show ?thesis
      by (simp add: mount_effect_def nullish_rejection)
  qed
qed

lemma step_keeps_error:
  "error (ui w) \<noteq> Some [] \<Longrightarrow> error (ui (after_step w st)) \<noteq> Some []"
  by (cases st)
    (simp_all add: effect_keeps_error awaiting_def handleLogout_def logout_def router_push_def
      console_log_def setLoading_def emit_def)

lemma run_keeps_error:
  "error (ui w) \<noteq> Some [] \<Longrightarrow> error (ui (run_steps steps w)) \<noteq> Some []"
  unfolding run_steps_def
  by (induction steps arbitrary: w) (simp_all add: step_keeps_error)

lemma reachable_error_not_empty: "error (ui (run_steps steps (mounted ls se))) \<noteq> Some []"
  by (rule run_keeps_error) (simp add: mounted_def initial_state_def)

text \<open>
  C4. In every state the page can be in (a fresh mount followed by any steps), the content
  block is exactly one of three views: the skeleton exactly when \<open>loading\<close> is true, and
  then no text taken from the state is shown, in the header or below; the error panel
  exactly when \<open>loading\<close> is false and \<open>error\<close> is not null; the profile panel exactly when
  \<open>loading\<close> is false and \<open>error\<close> is null. The error panel and the profile panel are
  never shown together.
\<close>

theorem body_views_exclusive:
  assumes st: "s = ui (run_steps steps (mounted ls se))"
  shows "(is_skeleton (body (render s)) \<longleftrightarrow> loading s) \<and>
   (is_error_panel (body (render s)) \<longleftrightarrow> \<not> loading s \<and> error s \<noteq> None) \<and>
   (is_profile_panel (body (render s)) \<longleftrightarrow> \<not> loading s \<and> error s = None) \<and>
   ((is_skeleton (body (render s)) \<and> \<not> is_error_panel (body (render s)) \<and>
       \<not> is_profile_panel (body (render s))) \<or>
    (is_error_panel (body (render s)) \<and> \<not> is_skeleton (body (render s)) \<and>
       \<not> is_profile_panel (body (render s))) \<or>
    (is_profile_panel (body (render s)) \<and> \<not> is_skeleton (body (render s)) \<and>
       \<not> is_error_panel (body (render s)))) \<and>
   \<not> (is_error_panel (body (render s)) \<and> is_profile_panel (body (render s))) \<and>
   (loading s \<longrightarrow> shown_texts (render s) = [])"
proof -
  have ne: "error s \<noteq> Some []"
    unfolding st by (rule reachable_error_not_empty)
  have views:
    "is_skeleton (body (render s)) \<longleftrightarrow> loading s"
    "is_error_panel (body (render s)) \<longleftrightarrow> \<not> loading s \<and> error s \<noteq> None"
    "is_profile_panel (body (render s)) \<longleftrightarrow> \<not> loading s \<and> error s = None"
    using ne
    by (auto simp add: render_def render_body_def truthy_def is_skeleton_def is_error_panel_def
        is_profile_panel_def split: option.splits)
  have quiet: "loading s \<Longrightarrow> shown_texts (render s) = []"
    by (simp add: shown_texts_def header_texts_def body_texts_def render_defs)
  from views quiet show ?thesis
    by auto
qed

theorem body_views_exclusive_witness:
  "loading (ui (run_steps [] (mounted Map.empty None))) \<and>
   is_skeleton (body (render (ui (run_steps [] (mounted Map.empty None))))) \<and>
   shown_texts (render (ui (run_steps [] (mounted Map.empty None)))) = [] \<and>
   error (ui (run_steps [Run_effect True (Rejected (Thrown (Some ''Network timeout'')))]
     (mounted [''token'' \<mapsto> ''abc''] None))) = Some ''Network timeout'' \<and>
   is_error_panel (body (render (ui (run_steps
     [Run_effect True (Rejected (Thrown (Some ''Network timeout'')))]
     (mounted [''token'' \<mapsto> ''abc''] None))))) \<and>
   is_profile_panel (body (render (ui (run_steps [Run_effect True (Resolved jane)]
     (mounted [''token'' \<mapsto> ''abc''] None)))))"
  using body_views_exclusive [of "ui (run_steps [] (mounted Map.empty None))" "[]"
      Map.empty None]
    body_views_exclusive [of
      "ui (run_steps [Run_effect True (Rejected (Thrown (Some ''Network timeout'')))]
         (mounted [''token'' \<mapsto> ''abc''] None))"
      "[Run_effect True (Rejected (Thrown (Some ''Network timeout'')))]"
      "[''token'' \<mapsto> ''abc'']" None]
    body_views_exclusive [of
      "ui (run_steps [Run_effect True (Resolved jane)] (mounted [''token'' \<mapsto> ''abc''] None))"
      "[Run_effect True (Resolved jane)]" "[''token'' \<mapsto> ''abc'']" None]
  by (simp add: run_steps_def mount_effect_def step_defs mounted_def initial_state_def
      truthy_def or_else_def)

subsection \<open>Every run ends, and what the user sees\<close>

text \<open>
  C6, as the code has it. A run of the effect in which the service is not called,
  answers with a profile, or rejects with an error value completes normally: the
  failure is caught in \<open>fetchProfile\<close> and nothing leaves the effect. What the user sees
  depends on the path. On a fetch failure with an error value: one destructive
  notification and the error panel, followed by at most one navigation request, to the
  login view with \<open>auth_failed\<close>. On success: the profile panel, with no notification and
  no navigation request. On a missing token: a navigation request to the login view
  with \<open>no_token\<close>, with no notification, and the skeleton is gone.
\<close>

theorem effect_outcomes:
  assumes run: "w' = snd (mount_effect True svc w)"
  shows "(svc \<noteq> Rejected_nullish \<or> \<not> truthy (localStorage w ''token'') \<longrightarrow>
       fst (mount_effect wd svc w) = Returned) \<and>
    (\<forall>err. truthy (localStorage w ''token'') \<and> svc = Rejected err \<longrightarrow>
       toasts (trace w') = toasts (trace w) @
         [Toast ''Error'' (or_else (message err) ''Failed to load profile'') Destructive] \<and>
       is_error_panel (body (render (ui w'))) \<and>
       (pushes (trace w') = pushes (trace w) \<or>
        pushes (trace w') = pushes (trace w) @ [''/seller/login?error=auth_failed''])) \<and>
    (\<forall>p. truthy (localStorage w ''token'') \<and> svc = Resolved p \<longrightarrow>
       toasts (trace w') = toasts (trace w) \<and> pushes (trace w') = pushes (trace w) \<and>
       is_profile_panel (body (render (ui w')))) \<and>
    (\<not> truthy (localStorage w ''token'') \<longrightarrow>
       toasts (trace w') = toasts (trace w) \<and>
       pushes (trace w') = pushes (trace w) @ [''/seller/login?error=no_token''] \<and>
       \<not> is_skeleton (body (render (ui w'))))"
proof -
  have returns: "fst (mount_effect wd svc w) = Returned"
    if "svc \<noteq> Rejected_nullish \<or> \<not> truthy (localStorage w ''token'')"
    using that by (auto simp add: mount_effect_def fetchProfile_returns missing_token_returns)
  have failure: "toasts (trace w') = toasts (trace w) @
         [Toast ''Error'' (or_else (message err) ''Failed to load profile'') Destructive] \<and>
       is_error_panel (body (render (ui w'))) \<and>
       (pushes (trace w') = pushes (trace w) \<or>
        pushes (trace w') = pushes (trace w) @ [''/seller/login?error=auth_failed''])"
    if tok: "truthy (localStorage w ''token'')" and svc: "svc = Rejected err" for err
  proof -
    have "error (ui w') = Some (or_else (message err) ''Failed to load profile'')"
      and "\<not> loading (ui w')"
      by (simp_all add: run svc mount_effect_def ui_rejected [OF tok])
    then have "is_error_panel (body (render (ui w')))"
      by (simp add: body_of_error is_error_panel_def)
    then show ?thesis
      by (simp add: run svc mount_effect_def trace_rejected [OF tok] trace_simps)
  qed
  have success: "toasts (trace w') = toasts (trace w) \<and> pushes (trace w') = pushes (trace w) \<and>
       is_profile_panel (body (render (ui w')))"
    if tok: "truthy (localStorage w ''token'')" and svc: "svc = Resolved p" for p
    by (simp add: run svc mount_effect_def ui_resolved [OF tok] trace_resolved [OF tok]
        trace_simps render_def render_body_def truthy_def is_profile_panel_def)
  have missing: "toasts (trace w') = toasts (trace w) \<and>
       pushes (trace w') = pushes (trace w) @ [''/seller/login?error=no_token''] \<and>
       \<not> is_skeleton (body (render (ui w')))"
    if tok: "\<not> truthy (localStorage w ''token'')"
    by (simp add: run mount_effect_def ui_missing_token [OF tok] trace_missing_token [OF tok]
        trace_simps render_def render_body_def is_skeleton_def)
  from returns failure success missing show ?thesis
    by blast
qed

theorem effect_outcomes_witness:
  "truthy (localStorage (mounted [''token'' \<mapsto> ''abc''] None) ''token'') \<and>
   \<not> truthy (localStorage (mounted Map.empty None) ''token'') \<and>
   fst (mount_effect True (Rejected (Thrown (Some ''Network timeout'')))
     (mounted [''token'' \<mapsto> ''abc''] None)) = Returned \<and>
   toasts (trace (snd (mount_effect True (Rejected (Thrown (Some ''Network timeout'')))
     (mounted [''token'' \<mapsto> ''abc''] None)))) =
     [Toast ''Error'' ''Network timeout'' Destructive] \<and>
   is_error_panel (body (render (ui (snd (mount_effect True
     (Rejected (Thrown (Some ''Network timeout''))) (mounted [''token'' \<mapsto> ''abc''] None)))))) \<and>
   pushes (trace (snd (mount_effect True (Resolved jane)
     (mounted [''token'' \<mapsto> ''abc''] None)))) = [] \<and>
   is_profile_panel (body (render (ui (snd (mount_effect True (Resolved jane)
     (mounted [''token'' \<mapsto> ''abc''] None)))))) \<and>
   fst (mount_effect True Rejected_nullish (mounted Map.empty None)) = Returned \<and>
   pushes (trace (snd (mount_effect True Rejected_nullish (mounted Map.empty None)))) =
     [''/seller/login?error=no_token'']"
  using effect_outcomes [of
      "snd (mount_effect True (Rejected (Thrown (Some ''Network timeout'')))
         (mounted [''token'' \<mapsto> ''abc''] None))"
      "Rejected (Thrown (Some ''Network timeout''))" "mounted [''token'' \<mapsto> ''abc''] None" True]
    effect_outcomes [of
      "snd (mount_effect True (Resolved jane) (mounted [''token'' \<mapsto> ''abc''] None))"
      "Resolved jane" "mounted [''token'' \<mapsto> ''abc''] None" True]
    effect_outcomes [of
      "snd (mount_effect True Rejected_nullish (mounted Map.empty None))"
      Rejected_nullish "mounted Map.empty None" True]
  by (simp add: mounted_def truthy_def or_else_def trace_simps)

text \<open>
  The claim as written fails on the success path and on the missing-token path: the
  only call of \<open>toast\<close> is in the \<open>catch\<close> block, so these runs end without a
  notification.
\<close>

theorem quiet_paths_counterexample:
  "fst (mount_effect True (Resolved jane) (mounted [''token'' \<mapsto> ''abc''] None)) = Returned \<and>
   toasts (trace (snd (mount_effect True (Resolved jane)
     (mounted [''token'' \<mapsto> ''abc''] None)))) = [] \<and>
   toasts (trace (snd (mount_effect True (Resolved jane) (mounted Map.empty None)))) = []"
  by (simp add: mount_effect_def step_defs mounted_def truthy_def trace_simps)

subsection \<open>Logout\<close>

text \<open>
  C7. In every state of the page, \<open>handleLogout\<close> first calls \<open>logout\<close>, which clears
  the session of the authentication context, and then requests navigation to
  "/seller/login": these are the two calls it adds, in this order, with no condition;
  the component state is not touched.
\<close>

theorem logout_clears_then_navigates:
  "session (handleLogout w) = None \<and>
   trace (handleLogout w) = trace w @ [Auth_logout, Router_push ''/seller/login''] \<and>
   ui (handleLogout w) = ui w"
  by (simp add: handleLogout_def logout_def router_push_def emit_def)

subsection \<open>Fallback texts of the loaded view\<close>

text \<open>
  C8. With \<open>loading\<close> false and \<open>error\<close> null the content block is the profile panel.
  Each of its fields shows the fixed fallback when the profile is null or the value is
  absent or empty, and the value itself otherwise: "User" for the full name, "CEO" for
  the title, "Email not provided" for the email, "Not provided" for the company name.
  The website is not displayed: changing it changes nothing of what is rendered.
\<close>

theorem loaded_view_fallbacks:
  assumes ready: "\<not> loading s" and ok: "error s = None"
  shows "is_profile_panel (body (render s)) \<and>
    (profile s = None \<longrightarrow>
       body (render s) = Profile_panel \<lparr>avatar_alt = ''Profile'', name_text = ''User'',
         title_text = ''CEO'', email_text = ''Email not provided'',
         company_text = ''Not provided''\<rparr>) \<and>
    (\<forall>p. profile s = Some p \<longrightarrow>
       name_text (panel (body (render s))) =
         (if fullName p = [] then ''User'' else fullName p) \<and>
       title_text (panel (body (render s))) =
         (if title p = None \<or> title p = Some [] then ''CEO'' else the (title p)) \<and>
       email_text (panel (body (render s))) =
         (if email p = [] then ''Email not provided'' else email p) \<and>
       company_text (panel (body (render s))) =
         (if companyName p = None \<or> companyName p = Some [] then ''Not provided''
          else the (companyName p))) \<and>
    render (s\<lparr>profile := map_option (\<lambda>p. p\<lparr>website := x\<rparr>) (profile s)\<rparr>) = render s"
proof -
  have panel: "is_profile_panel (body (render s))"
    using ready ok by (simp add: render_def render_body_def truthy_def is_profile_panel_def)
  have empty: "body (render s) = Profile_panel \<lparr>avatar_alt = ''Profile'', name_text = ''User'',
         title_text = ''CEO'', email_text = ''Email not provided'',
         company_text = ''Not provided''\<rparr>" if "profile s = None"
    using ready ok that by (simp add: render_defs truthy_def or_else_def)
  have fields: "name_text (panel (body (render s))) =
         (if fullName p = [] then ''User'' else fullName p) \<and>
       title_text (panel (body (render s))) =
         (if title p = None \<or> title p = Some [] then ''CEO'' else the (title p)) \<and>
       email_text (panel (body (render s))) =
         (if email p = [] then ''Email not provided'' else email p) \<and>
       company_text (panel (body (render s))) =
         (if companyName p = None \<or> companyName p = Some [] then ''Not provided''
          else the (companyName p))" if "profile s = Some p" for p
    using ready ok that
    by (auto simp add: render_defs truthy_def or_else_def split: option.splits)
  have site: "render (s\<lparr>profile := map_option (\<lambda>p. p\<lparr>website := x\<rparr>) (profile s)\<rparr>) = render s"
    by (cases "profile s") (simp_all add: render_defs truthy_def)
  from panel empty fields site show ?thesis
    by blast
qed

theorem loaded_view_fallbacks_witness:
  "\<not> loading \<lparr>profile = Some nameless, loading = False, error = None\<rparr> \<and>
   error \<lparr>profile = Some nameless, loading = False, error = None\<rparr> = None \<and>
   body (render \<lparr>profile = Some nameless, loading = False, error = None\<rparr>) =
     Profile_panel \<lparr>avatar_alt = ''Profile'', name_text = ''User'', title_text = ''CEO'',
       email_text = ''anon@x.com'', company_text = ''Acme''\<rparr> \<and>
   body (render \<lparr>profile = None, loading = False, error = None\<rparr>) =
     Profile_panel \<lparr>avatar_alt = ''Profile'', name_text = ''User'', title_text = ''CEO'',
       email_text = ''Email not provided'', company_text = ''Not provided''\<rparr>"
  using loaded_view_fallbacks [of "\<lparr>profile = Some nameless, loading = False, error = None\<rparr>"]
    loaded_view_fallbacks [of "\<lparr>profile = None, loading = False, error = None\<rparr>"]
  by (simp add: nameless_def render_defs truthy_def or_else_def)

end
